theory Spec2Isabelle
  imports Complex_Main
begin

section \<open>Data model\<close>

text \<open>
  The anomaly detector of \<^verbatim>\<open>ml-service/features/anomaly_detection.py\<close>.
  Events reach the detector as the dictionaries of the request model \<^verbatim>\<open>Event\<close> of
  \<^verbatim>\<open>ml-service/app.py\<close> (\<^verbatim>\<open>e.dict()\<close>): every key is present, \<^verbatim>\<open>id\<close>,
  \<^verbatim>\<open>state\<close>, \<^verbatim>\<open>event_type\<close> and \<^verbatim>\<open>timestamp\<close> are strings and the coordinates are
  floats. Python floats are modelled as real numbers (no rounding error, no overflow);
  the one not-a-number the code can produce (\<^verbatim>\<open>np.mean([])\<close>) is explicit.
\<close>

typedecl json \<comment> \<open>a value of the open attribute bag; only compared, never inspected\<close>

record event =
  event_id :: string
  state :: string
  event_type :: string
  latitude :: real
  longitude :: real
  timestamp :: string
  description :: "string option"
  attributes :: "(string \<rightharpoonup> json) option"

text \<open>What the detector reads of a successfully parsed \<^verbatim>\<open>datetime\<close>: its position on
  the time line in seconds (the line on which \<^verbatim>\<open>datetime.now(ts.tzinfo)\<close> reads the clock)
  and the three calendar fields used as features.\<close>

record datetime =
  instant :: real
  hour :: nat
  weekday :: nat
  minute :: nat

type_synonym matrix = "real list list"

text \<open>The library objects (scikit-learn) are not part of the repository: a scaler and an
  outlier model are what the detector does with them, \<open>None\<close> standing for a raised
  exception. The model is an \<^verbatim>\<open>IsolationForest\<close>:
  \<^item> its truth value, which \<^verbatim>\<open>self.model and ...\<close> takes, is the number of its fitted
    trees being non-zero, and taking it raises \<^verbatim>\<open>AttributeError\<close> before the forest is
    fitted;
  \<^item> \<^verbatim>\<open>score_samples\<close> gives scores in \<open>[-1, 0)\<close>, the opposite of the anomaly score of
    the isolation forest.\<close>

typedef outlier_score = "{s :: real. - 1 \<le> s \<and> s < 0}"
  by (rule exI [of _ "- 1"]) simp

setup_lifting type_definition_outlier_score

record scaler =
  transform :: "matrix \<Rightarrow> matrix option"

record outlier_model =
  truth :: "bool option"
  has_predict :: bool
  predict :: "matrix \<Rightarrow> int list option"
  score_samples :: "matrix \<Rightarrow> outlier_score list option"

record baseline =
  events :: "event list"
  lats :: "real list"
  lons :: "real list"
  avg_count :: "nat option"
  lat_range :: "(real \<times> real) option"
  lon_range :: "(real \<times> real) option"

type_synonym baselines = "(string \<times> baseline) list"

text \<open>The detector object: \<^verbatim>\<open>self.model\<close>, \<^verbatim>\<open>self.scaler\<close>, \<^verbatim>\<open>self.state_baselines\<close>
  (a dictionary in insertion order) and the content of the file at \<^verbatim>\<open>self.model_path\<close>.\<close>

record detector =
  model :: "outlier_model option"
  scaler :: scaler
  state_baselines :: baselines
  model_store :: "(outlier_model option \<times> scaler \<times> baselines) option"

text \<open>What the code takes from outside: the ISO parser, the clock (read once by the
  future check and once by the stale check), the availability flag of the library, the
  rendering of a float in an f-string, and the two \<^verbatim>\<open>fit\<close> methods.\<close>

record env =
  fromisoformat :: "string \<Rightarrow> datetime option"
  now_future :: real
  now_stale :: real
  sklearn_available :: bool
  float_str :: "real \<Rightarrow> string"
  scaler_fit :: "scaler \<Rightarrow> matrix \<Rightarrow> scaler"
  model_fit :: "outlier_model \<Rightarrow> matrix \<Rightarrow> outlier_model"

datatype error = ValueError | AttributeError | TransformError

datatype pyfloat = Finite real | NaN

record fallback =
  fb_source :: string
  fb_latitude :: "pyfloat option"
  fb_longitude :: "pyfloat option"
  fb_action :: "string option"
  fb_confidence :: real

record method_scores =
  statistical :: real
  ml :: real
  pattern :: real

record verdict =
  is_anomaly :: bool
  score :: real
  atype :: string
  explanation :: string
  fallback :: "fallback option"
  scores :: method_scores
  confidence :: real

section \<open>Python primitives\<close>

text \<open>\<^verbatim>\<open>round(x, n)\<close> on a float: to the nearest multiple of \<open>10 ^ -n\<close>, a tie to the
  even one.\<close>

definition round_half_even :: "real \<Rightarrow> int" where
  "round_half_even x =
     (let f = \<lfloor>x\<rfloor>; d = x - of_int f
      in if d < 1 / 2 then f else if 1 / 2 < d then f + 1
         else if even f then f else f + 1)"

definition py_round :: "real \<Rightarrow> nat \<Rightarrow> real" where
  "py_round x n = of_int (round_half_even (x * 10 ^ n)) / 10 ^ n"

text \<open>\<^verbatim>\<open>min(...)\<close> of a sequence raises \<^verbatim>\<open>ValueError\<close> on an empty one.\<close>

fun py_min :: "real list \<Rightarrow> error + real" where
  "py_min [] = Inl ValueError"
| "py_min (x # xs) = Inr (fold min xs x)"

text \<open>\<^verbatim>\<open>np.mean\<close> of a list: not-a-number on the empty list.\<close>

definition np_mean :: "real list \<Rightarrow> pyfloat" where
  "np_mean xs = (if xs = [] then NaN else Finite (sum_list xs / real (length xs)))"

text \<open>\<^verbatim>\<open>str.lower\<close>, on the ASCII letters.\<close>

definition lower_char :: "char \<Rightarrow> char" where
  "lower_char c =
     (case map_of (zip ''ABCDEFGHIJKLMNOPQRSTUVWXYZ'' ''abcdefghijklmnopqrstuvwxyz'') c of
        Some l \<Rightarrow> l
      | None \<Rightarrow> c)"

definition lower :: "string \<Rightarrow> string" where
  "lower s = map lower_char s"

text \<open>\<^verbatim>\<open>s.replace('Z', '+00:00')\<close>\<close>

definition replace_Z :: "string \<Rightarrow> string" where
  "replace_Z s = concat (map (\<lambda>c. if c = CHR ''Z'' then ''+00:00'' else [c]) s)"

definition parse_timestamp :: "env \<Rightarrow> event \<Rightarrow> datetime option" where
  "parse_timestamp env e = fromisoformat env (replace_Z (timestamp e))"

definition radians :: "real \<Rightarrow> real" where
  "radians x = x * pi / 180"

text \<open>\<^verbatim>\<open>np.arctan2(y, x)\<close>\<close>

definition arctan2 :: "real \<Rightarrow> real \<Rightarrow> real" where
  "arctan2 y x =
     (if 0 < x then arctan (y / x)
      else if x < 0 then (if 0 \<le> y then arctan (y / x) + pi else arctan (y / x) - pi)
      else if 0 < y then pi / 2 else if y < 0 then - (pi / 2) else 0)"

section \<open>The detector\<close>

text \<open>\<^verbatim>\<open>_distance\<close>: the Haversine formula, in km.\<close>

definition distance :: "event \<Rightarrow> event \<Rightarrow> real" where
  "distance event1 event2 =
     (let lat1 = latitude event1; lon1 = longitude event1;
          lat2 = latitude event2; lon2 = longitude event2;
          R = 6371;
          dlat = radians (lat2 - lat1);
          dlon = radians (lon2 - lon1);
          a = (sin (dlat / 2))\<^sup>2 +
              cos (radians lat1) * cos (radians lat2) * (sin (dlon / 2))\<^sup>2;
          c = 2 * arctan2 (sqrt a) (sqrt (1 - a))
      in R * c)"

definition event_types :: "string list" where
  "event_types = [''construction'', ''incident'', ''weather'', ''special_event'']"

text \<open>\<^verbatim>\<open>_extract_features\<close>. The minimum runs over the context events with a truthy
  latitude; when the context is not empty and no event passes, \<^verbatim>\<open>min\<close> raises.\<close>

definition extract_features :: "env \<Rightarrow> event \<Rightarrow> event list \<Rightarrow> error + real list" where
  "extract_features env event context =
     (let coords = [latitude event, longitude event];
          time = (if timestamp event \<noteq> []
                  then (case parse_timestamp env event of
                          Some ts \<Rightarrow> [real (hour ts), real (weekday ts), real (minute ts)]
                        | None \<Rightarrow> [0, 0, 0])
                  else [0, 0, 0]);
          et = lower (event_type event);
          onehot = map (\<lambda>t. if t = et then 1 else 0) event_types;
          nearby = real (length (filter (\<lambda>e. distance event e < 10) context))
      in if context \<noteq> []
         then (case py_min (map (distance event) (filter (\<lambda>e. latitude e \<noteq> 0) context)) of
                 Inl err \<Rightarrow> Inl err
               | Inr min_dist \<Rightarrow> Inr (coords @ time @ onehot @ [min_dist, nearby]))
         else Inr (coords @ time @ onehot @ [999, nearby]))"

text \<open>The two timestamp rules of \<^verbatim>\<open>_statistical_detection\<close>, each in its own
  \<^verbatim>\<open>try\<close>: an empty or unparsable timestamp makes the rule not apply.\<close>

definition future_timestamp :: "env \<Rightarrow> event \<Rightarrow> bool" where
  "future_timestamp env event =
     (timestamp event \<noteq> [] \<and>
      (case parse_timestamp env event of
         Some ts \<Rightarrow> now_future env + 3600 < instant ts
       | None \<Rightarrow> False))"

definition stale_event :: "env \<Rightarrow> event \<Rightarrow> bool" where
  "stale_event env event =
     (timestamp event \<noteq> [] \<and>
      (case parse_timestamp env event of
         Some ts \<Rightarrow> 168 < (now_stale env - instant ts) / 3600
       | None \<Rightarrow> False))"

text \<open>\<^verbatim>\<open>recent[-5:]\<close>\<close>

definition last5 :: "'a list \<Rightarrow> 'a list" where
  "last5 xs = drop (length xs - 5) xs"

text \<open>\<^verbatim>\<open>_statistical_detection\<close>: the first rule that matches decides.\<close>

definition statistical_detection :: "env \<Rightarrow> event \<Rightarrow> event list \<Rightarrow> bool \<times> real \<times> string" where
  "statistical_detection env event recent =
     (let lat = latitude event; lon = longitude event
      in if lat = 0 \<and> lon = 0 then (True, 1, ''zero_coordinates'')
         else if \<not> (24 \<le> lat \<and> lat \<le> 50 \<and> -125 \<le> lon \<and> lon \<le> -65)
           then (True, 1, ''invalid_coordinates'')
         else if 5 \<le> length recent \<and>
                 length (remdups (map (\<lambda>e. (latitude e, longitude e)) (last5 recent))) = 1
           then (True, 9 / 10, ''stuck_api'')
         else if future_timestamp env event then (True, 95 / 100, ''future_timestamp'')
         else if stale_event env event then (True, 8 / 10, ''stale_event'')
         else (False, 0, ''none''))"

text \<open>The first part of \<^verbatim>\<open>_pattern_detection\<close>, for a state that has a baseline: the
  spike in the event count, then the bounding box; \<open>None\<close> when neither fires.\<close>

definition baseline_check :: "baseline \<Rightarrow> event \<Rightarrow> event list \<Rightarrow> (bool \<times> real \<times> string) option" where
  "baseline_check b event recent =
     (let current_count = length (filter (\<lambda>e. state e = state event) recent);
          expected_lat_range = (case lat_range b of Some r \<Rightarrow> r | None \<Rightarrow> (0, 90));
          expected_lon_range = (case lon_range b of Some r \<Rightarrow> r | None \<Rightarrow> (-180, 0));
          lat = latitude event; lon = longitude event
      in if (case avg_count b of Some n \<Rightarrow> n | None \<Rightarrow> 10) * 3 < current_count
           then Some (True, 7 / 10, ''event_spike'')
         else if \<not> (fst expected_lat_range \<le> lat \<and> lat \<le> snd expected_lat_range \<and>
                    fst expected_lon_range \<le> lon \<and> lon \<le> snd expected_lon_range)
           then Some (True, 75 / 100, ''out_of_state_bounds'')
         else None)"

text \<open>The second part of \<^verbatim>\<open>_pattern_detection\<close>: an identifier reused with other
  data.\<close>

definition duplicate_check :: "event \<Rightarrow> event list \<Rightarrow> bool \<times> real \<times> string" where
  "duplicate_check event recent =
     (if event_id event \<noteq> []
      then (case filter (\<lambda>e. event_id e = event_id event) recent of
              d # _ \<Rightarrow> if d \<noteq> event then (True, 85 / 100, ''duplicate_id_mismatch'')
                       else (False, 0, ''none'')
            | [] \<Rightarrow> (False, 0, ''none''))
      else (False, 0, ''none''))"

text \<open>\<^verbatim>\<open>_pattern_detection\<close>: the baseline of the event's state, when there is one, then
  the duplicate identifier.\<close>

definition pattern_detection :: "detector \<Rightarrow> event \<Rightarrow> event list \<Rightarrow> bool \<times> real \<times> string" where
  "pattern_detection self event recent =
     (case (case map_of (state_baselines self) (state event) of
              Some b \<Rightarrow> baseline_check b event recent
            | None \<Rightarrow> None) of
        Some r \<Rightarrow> r
      | None \<Rightarrow> duplicate_check event recent)"

text \<open>\<^verbatim>\<open>_explain_anomaly\<close>: the table of explanations, with the generic sentence for a
  type that is not in it.\<close>

definition explain_anomaly :: "env \<Rightarrow> string \<Rightarrow> event \<Rightarrow> string" where
  "explain_anomaly env anomaly_type event =
     (case map_of
        [(''zero_coordinates'',
            ''Event coordinates (0, 0) indicate sensor failure for '' @ state event @ '' API''),
         (''invalid_coordinates'',
            ''Coordinates ('' @ float_str env (latitude event) @ '', '' @
            float_str env (longitude event) @ '') outside valid US range''),
         (''stuck_api'',
            ''API returning identical data - possible caching issue or service outage''),
         (''future_timestamp'',
            ''Event timestamp '' @ timestamp event @ '' is in the future''),
         (''stale_event'',
            ''Event is over 1 week old - may be incorrectly included in feed''),
         (''event_spike'',
            ''Unusual spike in events from '' @ state event @ '' - possible data corruption''),
         (''out_of_state_bounds'',
            ''Event location doesn't match state '' @ state event @ '' geography''),
         (''duplicate_id_mismatch'',
            ''Event ID '' @ event_id event @ '' reused with different data'')]
        anomaly_type of
        Some text \<Rightarrow> text
      | None \<Rightarrow> ''Anomaly detected by ML model'')"

text \<open>The default branch of \<^verbatim>\<open>_generate_fallback\<close> (interpolation from nearby events of
  the same state). The two means run over the truthy latitudes and the truthy longitudes
  of the nearby events.\<close>

definition interpolate_fallback :: "event \<Rightarrow> event list \<Rightarrow> fallback" where
  "interpolate_fallback anomalous_event recent_events =
     (let nearby = filter (\<lambda>e. state e = state anomalous_event \<and>
                                distance e anomalous_event < 50) recent_events
      in if nearby \<noteq> []
         then \<lparr>fb_source = ''interpolated'',
               fb_latitude = Some (np_mean (filter (\<lambda>x. x \<noteq> 0) (map latitude nearby))),
               fb_longitude = Some (np_mean (filter (\<lambda>x. x \<noteq> 0) (map longitude nearby))),
               fb_action = None,
               fb_confidence = 5 / 10\<rparr>
         else \<lparr>fb_source = ''none_available'',
               fb_latitude = None,
               fb_longitude = None,
               fb_action = Some ''manual_review_required'',
               fb_confidence = 0\<rparr>)"

text \<open>\<^verbatim>\<open>_generate_fallback\<close>\<close>

definition generate_fallback :: "event \<Rightarrow> event list \<Rightarrow> string \<Rightarrow> fallback" where
  "generate_fallback anomalous_event recent_events anomaly_type =
     (if anomaly_type = ''zero_coordinates''
      then (case filter (\<lambda>e. state e = state anomalous_event \<and>
                              latitude e \<noteq> 0 \<and> longitude e \<noteq> 0) (rev recent_events) of
              s # _ \<Rightarrow> \<lparr>fb_source = ''cached_coordinates'',
                        fb_latitude = Some (Finite (latitude s)),
                        fb_longitude = Some (Finite (longitude s)),
                        fb_action = None,
                        fb_confidence = 6 / 10\<rparr>
            | [] \<Rightarrow> interpolate_fallback anomalous_event recent_events)
      else if anomaly_type = ''stuck_api''
      then \<lparr>fb_source = ''skip_update'',
            fb_latitude = None,
            fb_longitude = None,
            fb_action = Some ''retain_previous_data'',
            fb_confidence = 8 / 10\<rparr>
      else if anomaly_type = ''stale_event''
      then \<lparr>fb_source = ''filtered_out'',
            fb_latitude = None,
            fb_longitude = None,
            fb_action = Some ''remove_from_active_events'',
            fb_confidence = 9 / 10\<rparr>
      else interpolate_fallback anomalous_event recent_events)"

text \<open>The condition that guards method 2 of \<^verbatim>\<open>detect\<close>,
  \<^verbatim>\<open>SKLEARN_AVAILABLE and self.model and hasattr(self.model, 'predict')\<close>, evaluated from
  the left and outside the \<^verbatim>\<open>try\<close>: taking the truth value of the model may raise.\<close>

definition model_usable :: "env \<Rightarrow> detector \<Rightarrow> error + bool" where
  "model_usable env self =
     (if \<not> sklearn_available env then Inr False
      else (case model self of
              None \<Rightarrow> Inr False
            | Some m \<Rightarrow>
                (case truth m of
                   None \<Rightarrow> Inl AttributeError
                 | Some False \<Rightarrow> Inr False
                 | Some True \<Rightarrow> Inr (has_predict m))))"

text \<open>The body of the \<^verbatim>\<open>try\<close> of method 2. Any exception leaves
  \<^verbatim>\<open>ml_anomaly = False\<close> and \<^verbatim>\<open>ml_score = 0.0\<close>.\<close>

definition learned_score :: "detector \<Rightarrow> real list \<Rightarrow> bool \<times> real" where
  "learned_score self features =
     (case model self of
        None \<Rightarrow> (False, 0)
      | Some m \<Rightarrow>
          (case transform (scaler self) [features] of
             None \<Rightarrow> (False, 0)
           | Some features_scaled \<Rightarrow>
               (case predict m features_scaled of
                  Some (prediction # _) \<Rightarrow>
                    (case score_samples m features_scaled of
                       Some (s # _) \<Rightarrow> (prediction = - 1, \<bar>Rep_outlier_score s\<bar>)
                     | _ \<Rightarrow> (False, 0))
                | _ \<Rightarrow> (False, 0))))"

text \<open>Method 2 of \<^verbatim>\<open>detect\<close>: the learned detector.\<close>

definition ml_detection :: "env \<Rightarrow> detector \<Rightarrow> real list \<Rightarrow> error + bool \<times> real" where
  "ml_detection env self features =
     (case model_usable env self of
        Inl err \<Rightarrow> Inl err
      | Inr usable \<Rightarrow> Inr (if usable then learned_score self features else (False, 0)))"

text \<open>\<^verbatim>\<open>detect\<close>\<close>

definition detect :: "env \<Rightarrow> detector \<Rightarrow> event \<Rightarrow> event list \<Rightarrow> error + verdict" where
  "detect env self current_event recent_events =
     (case extract_features env current_event recent_events of
        Inl err \<Rightarrow> Inl err
      | Inr features \<Rightarrow>
      (case ml_detection env self features of
        Inl err \<Rightarrow> Inl err
      | Inr (ml_anomaly, ml_score) \<Rightarrow>
          (let (stat_anomaly, stat_score, stat_type) =
                 statistical_detection env current_event recent_events;
               (pattern_anomaly, pattern_score, pattern_type) =
                 pattern_detection self current_event recent_events;
               anomaly_scores =
                 \<lparr>statistical = stat_score, ml = ml_score, pattern = pattern_score\<rparr>;
               anomaly = (stat_anomaly \<or> ml_anomaly \<or> pattern_anomaly);
               anomaly_score = max stat_score (max ml_score pattern_score);
               (anomaly_type, explained) =
                 (if stat_anomaly
                    then (stat_type, explain_anomaly env stat_type current_event)
                  else if pattern_anomaly
                    then (pattern_type, explain_anomaly env pattern_type current_event)
                  else if ml_anomaly
                    then (''ml_detected'', ''Event deviates from learned normal patterns'')
                  else (''none'', []))
           in Inr \<lparr>is_anomaly = anomaly,
                   score = py_round anomaly_score 3,
                   atype = anomaly_type,
                   explanation = explained,
                   fallback = (if anomaly
                               then Some (generate_fallback current_event recent_events
                                            anomaly_type)
                               else None),
                   scores = anomaly_scores,
                   confidence = py_round anomaly_score 3\<rparr>)))"


section \<open>Training\<close>

datatype train_result =
  TrainingError string
| Metrics (training_samples: nat) (states_profiled: nat) (model_type: string)

text \<open>A list comprehension whose element may raise: the first exception ends it.\<close>

fun collect :: "(error + 'a) list \<Rightarrow> error + 'a list" where
  "collect [] = Inr []"
| "collect (r # rs) =
     (case r of
        Inl err \<Rightarrow> Inl err
      | Inr x \<Rightarrow> (case collect rs of Inl err \<Rightarrow> Inl err | Inr xs \<Rightarrow> Inr (x # xs)))"

text \<open>The entry \<^verbatim>\<open>train\<close> creates for a state that has none, and the appends of the
  loop body to an entry.\<close>

definition new_baseline :: baseline where
  "new_baseline =
     \<lparr>events = [], lats = [], lons = [], avg_count = None, lat_range = None, lon_range = None\<rparr>"

definition record_event :: "event \<Rightarrow> baseline \<Rightarrow> baseline" where
  "record_event event b =
     b\<lparr>events := events b @ [event],
       lats := (if latitude event \<noteq> 0 then lats b @ [latitude event] else lats b),
       lons := (if longitude event \<noteq> 0 then lons b @ [longitude event] else lons b)\<rparr>"

text \<open>The body of the loop that builds the state baselines: an entry is created only
  for a state that has none, and the event is appended to the entry.\<close>

definition add_event :: "baselines \<Rightarrow> event \<Rightarrow> baselines" where
  "add_event bs event =
     (if state event \<noteq> []
      then (let bs' = (if map_of bs (state event) = None
                       then bs @ [(state event, new_baseline)] else bs)
            in map (\<lambda>(k, b). if k = state event then (k, record_event event b) else (k, b)) bs')
      else bs)"

text \<open>The entry the loop body appends to: the entry of the state, or the empty one it
  creates when the state has none.\<close>

definition entry_or_new :: "baselines \<Rightarrow> string \<Rightarrow> baseline" where
  "entry_or_new bs s = (case map_of bs s of None \<Rightarrow> new_baseline | Some b \<Rightarrow> b)"

text \<open>The body of the loop that calculates the statistics of one state.\<close>

definition calculate_statistics :: "baseline \<Rightarrow> baseline" where
  "calculate_statistics d =
     d\<lparr>avg_count := Some (length (events d)),
       lat_range := (case lats d of [] \<Rightarrow> lat_range d
                     | x # xs \<Rightarrow> Some (fold min xs x, fold max xs x)),
       lon_range := (case lons d of [] \<Rightarrow> lon_range d
                     | x # xs \<Rightarrow> Some (fold min xs x, fold max xs x))\<rparr>"

text \<open>The two loops of \<^verbatim>\<open>train\<close> over \<^verbatim>\<open>self.state_baselines\<close>: every event is added,
  starting from the baselines the detector already has, then the statistics of every
  state are calculated.\<close>

definition build_baselines :: "baselines \<Rightarrow> event list \<Rightarrow> baselines" where
  "build_baselines bs normal_events =
     map (\<lambda>(k, d). (k, calculate_statistics d)) (foldl add_event bs normal_events)"

text \<open>\<^verbatim>\<open>_save_model\<close>; a failure of the file system is not modelled.\<close>

definition save_model :: "env \<Rightarrow> detector \<Rightarrow> detector" where
  "save_model env self =
     (if sklearn_available env
      then self\<lparr>model_store := Some (model self, scaler self, state_baselines self)\<rparr>
      else self)"

text \<open>\<^verbatim>\<open>train\<close>: the result (or the exception) and the detector afterwards.\<close>

definition train :: "env \<Rightarrow> detector \<Rightarrow> event list \<Rightarrow> (error + train_result) \<times> detector" where
  "train env self normal_events =
     (if \<not> sklearn_available env \<or> normal_events = []
      then (Inr (TrainingError ''Training requires sklearn and training data''), self)
      else (case collect (map (\<lambda>e. extract_features env e normal_events) normal_events) of
              Inl err \<Rightarrow> (Inl err, self)
            | Inr features \<Rightarrow>
                (let self1 = self\<lparr>scaler := scaler_fit env (scaler self) features\<rparr>
                 in case transform (scaler self1) features of
                      None \<Rightarrow> (Inl TransformError, self1)
                    | Some features_scaled \<Rightarrow>
                        (case model self1 of
                           None \<Rightarrow> (Inl AttributeError, self1)
                         | Some m \<Rightarrow>
                             (let self2 = self1\<lparr>model := Some (model_fit env m features_scaled)\<rparr>;
                                  self3 = self2\<lparr>state_baselines :=
                                            build_baselines (state_baselines self2) normal_events\<rparr>;
                                  self4 = save_model env self3
                              in (Inr (Metrics (length normal_events)
                                         (length (state_baselines self4)) ''IsolationForest''),
                                  self4))))))"

section \<open>The specification's reading of two operations\<close>

text \<open>The specification's fusion rule, in its own words: the type comes from the method
  that produced the maximum score, a tie going to the statistical method, then to the
  pattern method, then to the learned one. Kept apart from \<open>detect\<close>, which is the code.\<close>

definition spec_fused_type :: "real \<times> string \<Rightarrow> real \<Rightarrow> real \<times> string \<Rightarrow> string" where
  "spec_fused_type stat ml_score pat =
     (let top = max (fst stat) (max ml_score (fst pat))
      in if fst stat = top then snd stat
         else if fst pat = top then snd pat
         else ''ml_detected'')"

text \<open>The specification's interpolation, in its own words: the coordinate-wise mean of
  the same-state context events within 50 km.\<close>

definition spec_interpolation :: "event \<Rightarrow> event list \<Rightarrow> pyfloat \<times> pyfloat" where
  "spec_interpolation anomalous_event recent_events =
     (let nearby = filter (\<lambda>e. state e = state anomalous_event \<and>
                                distance e anomalous_event < 50) recent_events
      in (np_mean (map latitude nearby), np_mean (map longitude nearby)))"

section \<open>Concrete inputs\<close>

text \<open>An environment whose parser knows one timestamp (a Monday at midnight, instant 0)
  and whose clock stands eight days later; the same environment one hour after the
  timestamp.\<close>

definition env_late :: env where
  "env_late =
     \<lparr>fromisoformat = (\<lambda>s. if s = ''2024-01-01T00:00:00+00:00''
                            then Some \<lparr>instant = 0, hour = 0, weekday = 0, minute = 0\<rparr>
                            else None),
      now_future = 691200, now_stale = 691200, sklearn_available = True,
      float_str = (\<lambda>x. ''<float>''), scaler_fit = (\<lambda>s X. s), model_fit = (\<lambda>m X. m)\<rparr>"

definition env_early :: env where
  "env_early = env_late\<lparr>now_future := 3600, now_stale := 3600\<rparr>"

text \<open>A detector without a model; a detector with a fitted model, which gives every
  sample the outlier score \<open>-1/2\<close> and calls none an outlier; and the detector that
  \<^verbatim>\<open>__init__\<close> builds when there is no model file, with an \<^verbatim>\<open>IsolationForest\<close> and a
  \<^verbatim>\<open>StandardScaler\<close> that are not fitted.\<close>

definition det_untrained :: detector where
  "det_untrained =
     \<lparr>model = None, scaler = \<lparr>transform = (\<lambda>X. None)\<rparr>, state_baselines = [],
      model_store = None\<rparr>"

lift_definition minus_half :: outlier_score is "- 1 / 2"
  by simp

definition fitted_model :: outlier_model where
  "fitted_model =
     \<lparr>truth = Some True,
      has_predict = True,
      predict = (\<lambda>X. Some (map (\<lambda>row. 1) X)),
      score_samples = (\<lambda>X. Some (map (\<lambda>row. minus_half) X))\<rparr>"

definition det_fitted :: detector where
  "det_fitted = det_untrained\<lparr>model := Some fitted_model, scaler := \<lparr>transform = Some\<rparr>\<rparr>"

definition unfitted_model :: outlier_model where
  "unfitted_model =
     \<lparr>truth = None,
      has_predict = True,
      predict = (\<lambda>X. None),
      score_samples = (\<lambda>X. None)\<rparr>"

definition det_fresh :: detector where
  "det_fresh = det_untrained\<lparr>model := Some unfitted_model\<rparr>"

definition ev_ia :: event where
  "ev_ia =
     \<lparr>event_id = ''e1'', state = ''IA'', event_type = ''incident'', latitude = 42,
      longitude = - 935 / 10, timestamp = ''2024-01-01T00:00:00Z'', description = None,
      attributes = None\<rparr>"

definition ev_ia_moved :: event where
  "ev_ia_moved = ev_ia\<lparr>latitude := 41\<rparr>"

definition ev_zero :: event where
  "ev_zero =
     \<lparr>event_id = ''e2'', state = ''IA'', event_type = ''incident'', latitude = 0,
      longitude = 0, timestamp = [], description = None, attributes = None\<rparr>"

definition ev_north :: event where
  "ev_north = ev_zero\<lparr>event_id := ''e3'', latitude := 1 / 10\<rparr>"

definition ev_east :: event where
  "ev_east = ev_zero\<lparr>event_id := ''e4'', longitude := 1 / 10\<rparr>"

definition ev_south :: event where
  "ev_south = ev_ia\<lparr>latitude := 10\<rparr>"

definition env_later :: env where
  "env_later = env_late\<lparr>now_future := 700000, now_stale := 700000\<rparr>"

text \<open>The baselines and the detector after training the detector \<open>det_fitted\<close> on the
  one event \<open>ev_ia\<close>, and after training the result on the one event \<open>ev_ia_moved\<close>;
  the baselines of a training on \<open>ev_ia_moved\<close> alone.\<close>

definition baselines_once :: baselines where
  "baselines_once =
     [(''IA'', \<lparr>events = [ev_ia], lats = [42], lons = [- 935 / 10], avg_count = Some 1,
               lat_range = Some (42, 42), lon_range = Some (- 935 / 10, - 935 / 10)\<rparr>)]"

definition baselines_twice :: baselines where
  "baselines_twice =
     [(''IA'', \<lparr>events = [ev_ia, ev_ia_moved], lats = [42, 41],
               lons = [- 935 / 10, - 935 / 10], avg_count = Some 2,
               lat_range = Some (41, 42), lon_range = Some (- 935 / 10, - 935 / 10)\<rparr>)]"

definition baselines_moved_alone :: baselines where
  "baselines_moved_alone =
     [(''IA'', \<lparr>events = [ev_ia_moved], lats = [41], lons = [- 935 / 10], avg_count = Some 1,
               lat_range = Some (41, 41), lon_range = Some (- 935 / 10, - 935 / 10)\<rparr>)]"

definition det_once :: detector where
  "det_once =
     det_fitted\<lparr>state_baselines := baselines_once,
             model_store := Some (Some fitted_model, \<lparr>transform = Some\<rparr>, baselines_once)\<rparr>"

definition det_twice :: detector where
  "det_twice =
     det_fitted\<lparr>state_baselines := baselines_twice,
             model_store := Some (Some fitted_model, \<lparr>transform = Some\<rparr>, baselines_twice)\<rparr>"

section \<open>Auxiliary facts\<close>

lemmas inputs_defs = env_late_def env_early_def det_untrained_def fitted_model_def det_fitted_def det_fresh_def unfitted_model_def
  ev_ia_def ev_ia_moved_def ev_zero_def ev_north_def ev_east_def ev_south_def env_later_def
  baselines_once_def baselines_twice_def baselines_moved_alone_def det_once_def det_twice_def

subsection \<open>Rounding\<close>

lemma round_half_even_near: "\<bar>of_int (round_half_even y) - y\<bar> \<le> 1 / 2"
proof -
  have "of_int \<lfloor>y\<rfloor> \<le> y" "y < of_int \<lfloor>y\<rfloor> + 1" by linarith+
  then show ?thesis by (auto simp: round_half_even_def Let_def)
qed

lemma py_round3_near: "\<bar>py_round x 3 - x\<bar> \<le> 1 / 2000"
proof -
  have "\<bar>of_int (round_half_even (x * 1000)) - x * 1000\<bar> \<le> 1 / 2"
    by (rule round_half_even_near)
  then show ?thesis by (simp add: py_round_def abs_le_iff field_simps)
qed

lemma round_half_even_of_int: "round_half_even (of_int k) = k"
  by (simp add: round_half_even_def)

lemma py_round3_milli: "py_round (of_int k / 1000) 3 = of_int k / 1000"
  by (simp add: py_round_def round_half_even_of_int)

lemma py_round3_fixed:
  assumes "x \<in> {0, 7 / 10, 75 / 100, 8 / 10, 85 / 100, 9 / 10, 95 / 100, 1}"
  shows "py_round x 3 = x"
proof -
  from assms consider "x = of_int 0 / 1000" | "x = of_int 700 / 1000"
    | "x = of_int 750 / 1000" | "x = of_int 800 / 1000" | "x = of_int 850 / 1000"
    | "x = of_int 900 / 1000" | "x = of_int 950 / 1000" | "x = of_int 1000 / 1000"
    by auto
  then show ?thesis by cases (simp_all only: py_round3_milli)
qed

subsection \<open>The Haversine distance on a meridian and on the equator\<close>

lemma arctan2_sin_cos:
  assumes "0 \<le> x" "x < pi / 2"
  shows "arctan2 (sqrt ((sin x)\<^sup>2)) (sqrt (1 - (sin x)\<^sup>2)) = x"
proof -
  have c: "0 < cos x" using assms by (intro cos_gt_zero_pi) auto
  have s: "0 \<le> sin x" using assms by (intro sin_ge_zero) auto
  have "1 - (sin x)\<^sup>2 = (cos x)\<^sup>2"
    using sin_cos_squared_add [of x] by (simp add: algebra_simps)
  then have "sqrt (1 - (sin x)\<^sup>2) = cos x" using c by simp
  moreover have "sqrt ((sin x)\<^sup>2) = sin x" using s by simp
  moreover have "arctan (sin x / cos x) = x"
    using arctan_tan [of x] assms by (simp add: tan_def)
  ultimately show ?thesis using c by (simp add: arctan2_def)
qed

lemma radians_0: "radians 0 = 0"
  by (simp add: radians_def)

lemma distance_same:
  "latitude a = latitude b \<Longrightarrow> longitude a = longitude b \<Longrightarrow> distance a b = 0"
  by (simp add: distance_def radians_def arctan2_def)

lemma sin_half_radians_sq:
  "(sin (radians d / 2))\<^sup>2 = (sin (radians \<bar>d\<bar> / 2))\<^sup>2"
proof (cases "0 \<le> d")
  case True
  then show ?thesis by simp
next
  case False
  then have "radians \<bar>d\<bar> / 2 = - (radians d / 2)"
    by (simp add: radians_def)
  then show ?thesis by simp
qed

lemma haversine_arc:
  assumes "0 \<le> d" "d < 180"
  shows "2 * arctan2 (sqrt ((sin (radians d / 2))\<^sup>2))
           (sqrt (1 - (sin (radians d / 2))\<^sup>2)) = radians d"
proof -
  have "0 \<le> radians d / 2" using assms by (simp add: radians_def)
  moreover have "radians d / 2 < pi / 2" using assms by (simp add: radians_def)
  ultimately show ?thesis using arctan2_sin_cos [of "radians d / 2"] by simp
qed

lemma distance_meridian:
  assumes "longitude a = longitude b" "\<bar>latitude b - latitude a\<bar> < 180"
  shows "distance a b = 6371 * radians \<bar>latitude b - latitude a\<bar>"
proof -
  have "distance a b =
      6371 * (2 * arctan2 (sqrt ((sin (radians (latitude b - latitude a) / 2))\<^sup>2))
                 (sqrt (1 - (sin (radians (latitude b - latitude a) / 2))\<^sup>2)))"
    using assms(1) by (simp add: distance_def Let_def radians_0)
  also have "\<dots> = 6371 * radians \<bar>latitude b - latitude a\<bar>"
    using haversine_arc [of "\<bar>latitude b - latitude a\<bar>"] assms(2)
    by (simp add: sin_half_radians_sq [of "latitude b - latitude a"])
  finally show ?thesis .
qed

lemma distance_equator:
  assumes "latitude a = 0" "latitude b = 0" "\<bar>longitude b - longitude a\<bar> < 180"
  shows "distance a b = 6371 * radians \<bar>longitude b - longitude a\<bar>"
proof -
  have "distance a b =
      6371 * (2 * arctan2 (sqrt ((sin (radians (longitude b - longitude a) / 2))\<^sup>2))
                 (sqrt (1 - (sin (radians (longitude b - longitude a) / 2))\<^sup>2)))"
    using assms(1,2) by (simp add: distance_def Let_def radians_0)
  also have "\<dots> = 6371 * radians \<bar>longitude b - longitude a\<bar>"
    using haversine_arc [of "\<bar>longitude b - longitude a\<bar>"] assms(3)
    by (simp add: sin_half_radians_sq [of "longitude b - longitude a"])
  finally show ?thesis .
qed

lemma radians_small: "0 \<le> d \<Longrightarrow> d \<le> 1 / 10 \<Longrightarrow> 6371 * radians d < 50"
proof -
  assume d: "0 \<le> d" "d \<le> 1 / 10"
  have "pi < 4" using pi_less_4 .
  have "d * pi \<le> (1 / 10) * pi" using d by (intro mult_right_mono) auto
  then have "6371 * (d * pi / 180) \<le> 6371 * ((1 / 10) * pi / 180)" by simp
  also have "\<dots> < 50" using \<open>pi < 4\<close> by simp
  finally show ?thesis by (simp add: radians_def)
qed

subsection \<open>When the detector raises\<close>

lemma extract_features_raises:
  "extract_features env ev ctx = Inl err \<longleftrightarrow>
     err = ValueError \<and> ctx \<noteq> [] \<and> filter (\<lambda>e. latitude e \<noteq> 0) ctx = []"
  by (cases "filter (\<lambda>e. latitude e \<noteq> 0) ctx")
     (auto simp: extract_features_def Let_def)

lemma extract_features_length:
  "extract_features env ev ctx = Inr fs \<Longrightarrow> length fs = 11"
  by (cases "filter (\<lambda>e. latitude e \<noteq> 0) ctx")
     (auto simp: extract_features_def Let_def event_types_def split: if_splits option.splits)

lemma detect_raises:
  "detect env self ev ctx = Inl err \<longleftrightarrow>
     extract_features env ev ctx = Inl err \<or>
     (\<exists>fs. extract_features env ev ctx = Inr fs) \<and> model_usable env self = Inl err"
  by (auto simp: detect_def ml_detection_def Let_def split: sum.splits prod.splits)

lemma model_usable_raises:
  "model_usable env self = Inl err \<longleftrightarrow>
     err = AttributeError \<and> sklearn_available env \<and>
     (\<exists>m. model self = Some m \<and> truth m = None)"
  by (auto simp: model_usable_def split: option.splits bool.splits)

subsection \<open>The scores of the three methods\<close>

lemma stat_cases:
  assumes "statistical_detection env ev ctx = (sa, ss, st)"
  shows "(sa \<and> ss \<in> {1, 9 / 10, 95 / 100, 8 / 10}) \<or> (\<not> sa \<and> ss = 0 \<and> st = ''none'')"
  using assms by (auto simp: statistical_detection_def Let_def split: if_splits)

lemma pattern_cases:
  assumes "pattern_detection self ev ctx = (pa, ps, pt)"
  shows "(pa \<and> ps \<in> {7 / 10, 75 / 100, 85 / 100}) \<or> (\<not> pa \<and> ps = 0 \<and> pt = ''none'')"
  using assms
  by (auto simp: pattern_detection_def baseline_check_def duplicate_check_def Let_def
      split: if_splits option.splits list.splits)

lemma outlier_score_unit: "0 \<le> \<bar>Rep_outlier_score s\<bar> \<and> \<bar>Rep_outlier_score s\<bar> \<le> 1"
  using Rep_outlier_score [of s] by auto

lemma learned_score_unit:
  assumes "learned_score self fs = (ma, ms)"
  shows "0 \<le> ms \<and> ms \<le> 1"
  using assms outlier_score_unit
  by (auto simp: learned_score_def split: option.splits list.splits)

lemma ml_unit:
  assumes "ml_detection env self fs = Inr (ma, ms)"
  shows "0 \<le> ms \<and> ms \<le> 1"
proof (cases "model_usable env self")
  case (Inl err)
  then show ?thesis using assms by (simp add: ml_detection_def)
next
  case (Inr usable)
  then show ?thesis
    using assms learned_score_unit [of self fs ma ms]
    by (cases usable) (auto simp: ml_detection_def)
qed

lemma max_fixed:
  assumes "statistical_detection env ev ctx = (sa, ss, st)"
    and "pattern_detection self ev ctx = (pa, ps, pt)"
  shows "max ss (max 0 ps) \<in> {0, 7 / 10, 75 / 100, 8 / 10, 85 / 100, 9 / 10, 95 / 100, 1}"
  using stat_cases [OF assms(1)] pattern_cases [OF assms(2)] by auto

text \<open>The verdict, written out from the results of the three methods.\<close>

lemma detect_verdict:
  assumes "detect env self ev ctx = Inr v"
    and "extract_features env ev ctx = Inr fs"
    and "statistical_detection env ev ctx = (sa, ss, st)"
    and "ml_detection env self fs = Inr (ma, ms)"
    and "pattern_detection self ev ctx = (pa, ps, pt)"
  shows "v = \<lparr>is_anomaly = (sa \<or> ma \<or> pa),
              score = py_round (max ss (max ms ps)) 3,
              atype = (if sa then st else if pa then pt
                       else if ma then ''ml_detected'' else ''none''),
              explanation = (if sa then explain_anomaly env st ev
                             else if pa then explain_anomaly env pt ev
                             else if ma then ''Event deviates from learned normal patterns''
                             else []),
              fallback = (if sa \<or> ma \<or> pa
                          then Some (generate_fallback ev ctx
                                 (if sa then st else if pa then pt
                                  else if ma then ''ml_detected'' else ''none''))
                          else None),
              scores = \<lparr>statistical = ss, ml = ms, pattern = ps\<rparr>,
              confidence = py_round (max ss (max ms ps)) 3\<rparr>"
  using assms by (auto simp: detect_def Let_def)

subsection \<open>Evaluations on the concrete inputs\<close>

lemma features_ia_moved:
  "\<exists>fs. extract_features env_late ev_ia [ev_ia_moved] = Inr fs"
  by (simp add: extract_features_def inputs_defs Let_def)

lemma statistical_ia_late:
  "statistical_detection env_late ev_ia ctx1 = 
     (if 5 \<le> length ctx1 \<and>
         length (remdups (map (\<lambda>e. (latitude e, longitude e)) (last5 ctx1))) = 1
      then (True, 9 / 10, ''stuck_api'') else (True, 8 / 10, ''stale_event''))"
  by (simp add: statistical_detection_def future_timestamp_def stale_event_def
      parse_timestamp_def replace_Z_def inputs_defs Let_def)

lemma pattern_ia_moved:
  "pattern_detection det_untrained ev_ia [ev_ia_moved] =
     (True, 85 / 100, ''duplicate_id_mismatch'')"
  by (simp add: pattern_detection_def duplicate_check_def inputs_defs)

lemma ml_untrained: "ml_detection env det_untrained fs = Inr (False, 0)"
  by (simp add: ml_detection_def model_usable_def det_untrained_def)

lemma detect_stale_duplicate:
  "detect env_late det_untrained ev_ia [ev_ia_moved] =
     Inr \<lparr>is_anomaly = True, score = 85 / 100, atype = ''stale_event'',
          explanation = ''Event is over 1 week old - may be incorrectly included in feed'',
          fallback = Some \<lparr>fb_source = ''filtered_out'', fb_latitude = None,
                           fb_longitude = None,
                           fb_action = Some ''remove_from_active_events'',
                           fb_confidence = 9 / 10\<rparr>,
          scores = \<lparr>statistical = 8 / 10, ml = 0, pattern = 85 / 100\<rparr>,
          confidence = 85 / 100\<rparr>"
  by (simp add: detect_def extract_features_def statistical_detection_def
      pattern_detection_def duplicate_check_def ml_detection_def model_usable_def learned_score_def explain_anomaly_def
      generate_fallback_def future_timestamp_def stale_event_def parse_timestamp_def
      replace_Z_def py_round_def round_half_even_def last5_def inputs_defs Let_def)

lemma detect_returns:
  assumes "extract_features env ev ctx = Inr fs" and "model_usable env self = Inr usable"
  shows "\<exists>v. detect env self ev ctx = Inr v"
  using assms by (simp add: detect_def ml_detection_def Let_def split: prod.splits)

lemma features_return:
  assumes "ctx = [] \<or> (\<exists>e\<in>set ctx. latitude e \<noteq> 0)"
  shows "\<exists>fs. extract_features env ev ctx = Inr fs"
proof (cases "extract_features env ev ctx")
  case (Inl err)
  then have "ctx \<noteq> []" "filter (\<lambda>e. latitude e \<noteq> 0) ctx = []"
    by (simp_all add: extract_features_raises)
  then show ?thesis using assms by (auto simp: filter_empty_conv)
next
  case (Inr fs)
  then show ?thesis by blast
qed

lemma ml_success:
  assumes "model_usable env self = Inr True" "model self = Some m"
    and "transform (scaler self) [fs] = Some X"
    and "predict m X = Some (p # ps)" "score_samples m X = Some (s # ss)"
  shows "ml_detection env self fs = Inr (p = - 1, \<bar>Rep_outlier_score s\<bar>)"
  using assms by (simp add: ml_detection_def learned_score_def)

lemma ml_failure:
  assumes "model_usable env self = Inr usable"
    and "\<not> usable \<or>
     (\<exists>m. model self = Some m \<and>
        (transform (scaler self) [fs] = None \<or>
         (\<exists>X. transform (scaler self) [fs] = Some X \<and>
            (predict m X = None \<or> predict m X = Some [] \<or>
             score_samples m X = None \<or> score_samples m X = Some []))))"
  shows "ml_detection env self fs = Inr (False, 0)"
  using assms
  by (auto simp: ml_detection_def learned_score_def split: option.splits list.splits)

lemma detect_ml_entry:
  assumes "extract_features env ev ctx = Inr fs" "detect env self ev ctx = Inr v"
  shows "\<exists>ma. ml_detection env self fs = Inr (ma, ml (scores v))"
  using assms by (auto simp: detect_def Let_def split: sum.splits prod.splits)

lemma features_ia_empty: "\<exists>fs. extract_features env_late ev_ia [] = Inr fs"
  by (simp add: extract_features_def Let_def)

lemma detect_with_statistical_one:
  assumes ctx: "ctx = [] \<or> (\<exists>e\<in>set ctx. latitude e \<noteq> 0)"
    and usable: "model_usable env self = Inr usable"
    and stat: "statistical_detection env ev ctx = (True, 1, st)"
  shows "\<exists>v. detect env self ev ctx = Inr v \<and> is_anomaly v \<and> atype v = st \<and>
           statistical (scores v) = 1 \<and> score v = 1"
proof -
  obtain fs where f: "extract_features env ev ctx = Inr fs"
    using features_return [OF ctx] by blast
  obtain v where v: "detect env self ev ctx = Inr v"
    using detect_returns [OF f usable] by blast
  obtain ma ms where m: "ml_detection env self fs = Inr (ma, ms)"
    using usable by (cases "ml_detection env self fs") (auto simp: ml_detection_def)
  obtain pa ps pt where p: "pattern_detection self ev ctx = (pa, ps, pt)"
    by (cases "pattern_detection self ev ctx")
  note eq = detect_verdict [OF v f stat m p]
  have "ps \<le> 1" using pattern_cases [OF p] by auto
  moreover have "ms \<le> 1" using ml_unit [OF m] by simp
  ultimately have mx: "max 1 (max ms ps) = 1" by (simp add: max_def)
  have "py_round 1 3 = 1" using py_round3_fixed [of 1] by simp
  then show ?thesis using v mx by (simp add: eq)
qed

lemma fallback_wellformed:
  "fb_source (generate_fallback ev ctx t) \<in>
     {''cached_coordinates'', ''skip_update'', ''filtered_out'', ''interpolated'',
      ''none_available''} \<and>
   0 \<le> fb_confidence (generate_fallback ev ctx t) \<and>
   fb_confidence (generate_fallback ev ctx t) \<le> 1"
  by (simp add: generate_fallback_def interpolate_fallback_def Let_def split: list.splits)

lemma interpolate_nothing: "interpolate_fallback ev [] =
   \<lparr>fb_source = ''none_available'', fb_latitude = None, fb_longitude = None,
    fb_action = Some ''manual_review_required'', fb_confidence = 0\<rparr>"
  by (simp add: interpolate_fallback_def)

lemma detect_zero_untrained:
  "detect env_late det_untrained ev_zero [] =
     Inr \<lparr>is_anomaly = True, score = 1, atype = ''zero_coordinates'',
          explanation = ''Event coordinates (0, 0) indicate sensor failure for IA API'',
          fallback = Some \<lparr>fb_source = ''none_available'', fb_latitude = None,
                           fb_longitude = None,
                           fb_action = Some ''manual_review_required'',
                           fb_confidence = 0\<rparr>,
          scores = \<lparr>statistical = 1, ml = 0, pattern = 0\<rparr>,
          confidence = 1\<rparr>"
  by (simp add: detect_def extract_features_def statistical_detection_def
      pattern_detection_def duplicate_check_def ml_detection_def model_usable_def learned_score_def explain_anomaly_def
      generate_fallback_def interpolate_nothing
      py_round_def round_half_even_def inputs_defs Let_def)


text \<open>What the learned method contributes when the test of the model does not raise:
  a score in \<open>[0, 1]\<close>, the absolute value of the outlier score when scaling, prediction
  and scoring succeed, and 0 in every other case.\<close>

lemma learned_entry:
  assumes "extract_features env ev ctx = Inr fs" and "model_usable env self = Inr usable"
  shows "\<exists>v. detect env self ev ctx = Inr v \<and> 0 \<le> ml (scores v) \<and> ml (scores v) \<le> 1 \<and>
     (\<forall>m X p ps s ss.
        usable \<and> model self = Some m \<and> transform (scaler self) [fs] = Some X \<and>
        predict m X = Some (p # ps) \<and> score_samples m X = Some (s # ss) \<longrightarrow>
        ml (scores v) = \<bar>Rep_outlier_score s\<bar>) \<and>
     (\<not> usable \<or>
      (\<exists>m. model self = Some m \<and>
         (transform (scaler self) [fs] = None \<or>
          (\<exists>X. transform (scaler self) [fs] = Some X \<and>
             (predict m X = None \<or> predict m X = Some [] \<or>
              score_samples m X = None \<or> score_samples m X = Some [])))) \<longrightarrow>
      ml (scores v) = 0)"
proof -
  obtain v where v: "detect env self ev ctx = Inr v"
    using detect_returns [OF assms] by blast
  obtain ma where e: "ml_detection env self fs = Inr (ma, ml (scores v))"
    using detect_ml_entry [OF assms(1) v] by blast
  have 1: "0 \<le> ml (scores v) \<and> ml (scores v) \<le> 1" using ml_unit [OF e] .
  have 2: "ml (scores v) = \<bar>Rep_outlier_score s\<bar>"
    if "usable \<and> model self = Some m \<and> transform (scaler self) [fs] = Some X \<and>
        predict m X = Some (p # ps) \<and> score_samples m X = Some (s # ss)"
    for m X p ps s ss
    using that e assms(2) ml_success [of env self m fs X p ps s ss] by auto
  have 3: "ml (scores v) = 0"
    if "\<not> usable \<or>
      (\<exists>m. model self = Some m \<and>
         (transform (scaler self) [fs] = None \<or>
          (\<exists>X. transform (scaler self) [fs] = Some X \<and>
             (predict m X = None \<or> predict m X = Some [] \<or>
              score_samples m X = None \<or> score_samples m X = Some []))))"
    using ml_failure [OF assms(2) that] e by simp
  from v 1 2 3 show ?thesis by blast
qed

lemma model_usable_fresh: "model_usable env_late det_fresh = Inl AttributeError"
  by (simp add: model_usable_def inputs_defs)

lemma model_usable_fitted: "model_usable env_late det_fitted = Inr True"
  by (simp add: model_usable_def inputs_defs)

subsection \<open>The fallback for zero coordinates, and the clock\<close>

lemma filter_rev_last:
  assumes "P e" "\<forall>x\<in>set newer. \<not> P x"
  shows "filter P (rev (older @ e # newer)) = e # filter P (rev older)"
  using assms by (simp add: filter_empty_conv)

lemma filter_map_nonzero:
  "filter (\<lambda>x. x \<noteq> 0) (map f xs) = map f (filter (\<lambda>x. f x \<noteq> 0) xs)"
  by (induction xs) auto

lemma fallback_zero_cached:
  assumes "recent = older @ e # newer"
    and "state e = state ev \<and> latitude e \<noteq> 0 \<and> longitude e \<noteq> 0"
    and "\<forall>x\<in>set newer. \<not> (state x = state ev \<and> latitude x \<noteq> 0 \<and> longitude x \<noteq> 0)"
  shows "generate_fallback ev recent ''zero_coordinates'' =
      \<lparr>fb_source = ''cached_coordinates'',
       fb_latitude = Some (Finite (latitude e)),
       fb_longitude = Some (Finite (longitude e)),
       fb_action = None, fb_confidence = 6 / 10\<rparr>"
proof -
  have "filter (\<lambda>x. state x = state ev \<and> latitude x \<noteq> 0 \<and> longitude x \<noteq> 0)
      (rev recent) =
    e # filter (\<lambda>x. state x = state ev \<and> latitude x \<noteq> 0 \<and> longitude x \<noteq> 0) (rev older)"
    unfolding assms(1)
    by (rule filter_rev_last) (use assms(2,3) in auto)
  then show ?thesis by (simp add: generate_fallback_def)
qed

lemma fallback_zero_default:
  assumes "\<forall>x\<in>set recent. \<not> (state x = state ev \<and> latitude x \<noteq> 0 \<and> longitude x \<noteq> 0)"
  shows "generate_fallback ev recent ''zero_coordinates'' = interpolate_fallback ev recent"
proof -
  have "filter (\<lambda>x. state x = state ev \<and> latitude x \<noteq> 0 \<and> longitude x \<noteq> 0)
      (rev recent) = []"
    using assms by (simp add: filter_empty_conv)
  then show ?thesis by (simp add: generate_fallback_def)
qed

lemma interpolate_fallback_means:
  "interpolate_fallback ev recent =
      (let nearby = filter (\<lambda>x. state x = state ev \<and> distance x ev < 50) recent
       in if nearby \<noteq> []
          then \<lparr>fb_source = ''interpolated'',
                fb_latitude = Some (np_mean (map latitude (filter (\<lambda>x. latitude x \<noteq> 0) nearby))),
                fb_longitude = Some (np_mean (map longitude (filter (\<lambda>x. longitude x \<noteq> 0) nearby))),
                fb_action = None, fb_confidence = 5 / 10\<rparr>
          else \<lparr>fb_source = ''none_available'', fb_latitude = None, fb_longitude = None,
                fb_action = Some ''manual_review_required'', fb_confidence = 0\<rparr>)"
  by (simp add: interpolate_fallback_def Let_def filter_map_nonzero)






subsection \<open>Further evaluations on the concrete inputs\<close>

lemma north_east_fields:
  "state ev_north = state ev_zero" "state ev_east = state ev_zero"
  "latitude ev_north = 1 / 10" "longitude ev_north = 0"
  "latitude ev_east = 0" "longitude ev_east = 1 / 10"
  by (simp_all add: inputs_defs)

lemma north_near: "distance ev_north ev_zero < 50"
proof -
  have "distance ev_north ev_zero = 6371 * radians \<bar>latitude ev_zero - latitude ev_north\<bar>"
    by (rule distance_meridian) (simp_all add: inputs_defs)
  also have "\<dots> < 50" by (rule radians_small) (simp_all add: inputs_defs)
  finally show ?thesis .
qed

lemma east_near: "distance ev_east ev_zero < 50"
proof -
  have "distance ev_east ev_zero = 6371 * radians \<bar>longitude ev_zero - longitude ev_east\<bar>"
    by (rule distance_equator) (simp_all add: inputs_defs)
  also have "\<dots> < 50" by (rule radians_small) (simp_all add: inputs_defs)
  finally show ?thesis .
qed

lemma interpolate_north_east:
  "interpolate_fallback ev_zero [ev_north, ev_east] =
     \<lparr>fb_source = ''interpolated'', fb_latitude = Some (Finite (1 / 10)),
      fb_longitude = Some (Finite (1 / 10)), fb_action = None, fb_confidence = 5 / 10\<rparr>"
  by (simp add: interpolate_fallback_def north_near east_near north_east_fields np_mean_def)

lemma fallback_north_east:
  "generate_fallback ev_zero [ev_north, ev_east] ''zero_coordinates'' =
     \<lparr>fb_source = ''interpolated'', fb_latitude = Some (Finite (1 / 10)),
      fb_longitude = Some (Finite (1 / 10)), fb_action = None, fb_confidence = 5 / 10\<rparr>"
proof -
  have "\<forall>x\<in>set [ev_north, ev_east].
       \<not> (state x = state ev_zero \<and> latitude x \<noteq> 0 \<and> longitude x \<noteq> 0)"
    by (simp add: north_east_fields)
  from fallback_zero_default [OF this] show ?thesis by (simp add: interpolate_north_east)
qed

lemma spec_north_east:
  "spec_interpolation ev_zero [ev_north, ev_east] = (Finite (1 / 20), Finite (1 / 20))"
  by (simp add: spec_interpolation_def north_near east_near north_east_fields np_mean_def)



subsection \<open>The loop that builds the state baselines\<close>

lemma map_of_map_keyed:
  "map_of (map (\<lambda>(k, b). if k = s then (k, f b) else (k, b)) bs) t =
     (if t = s then map_option f (map_of bs t) else map_of bs t)"
  by (induction bs) auto

lemma map_of_map_values:
  "map_of (map (\<lambda>(k, d). (k, f d)) bs) t = map_option f (map_of bs t)"
  by (induction bs) auto

lemma add_event_lookup:
  "map_of (add_event bs e) s =
     (if state e \<noteq> [] \<and> s = state e then Some (record_event e (entry_or_new bs s))
      else map_of bs s)"
  by (auto simp: add_event_def entry_or_new_def Let_def map_of_map_keyed map_add_def
      split: option.splits)

lemma foldl_add_event_lookup:
  "map_of (foldl add_event bs es) s =
     (if s \<noteq> [] \<and> filter (\<lambda>e. state e = s) es \<noteq> []
      then Some (foldl (\<lambda>b e. record_event e b) (entry_or_new bs s) (filter (\<lambda>e. state e = s) es))
      else map_of bs s)"
proof (induction es arbitrary: bs)
  case Nil
  then show ?case by simp
next
  case (Cons e es)
  show ?case
  proof (cases "state e \<noteq> [] \<and> s = state e")
    case True
    then have "entry_or_new (add_event bs e) s = record_event e (entry_or_new bs s)"
      by (simp add: entry_or_new_def add_event_lookup)
    moreover have "map_of (add_event bs e) s = Some (record_event e (entry_or_new bs s))"
      using True by (simp add: add_event_lookup)
    ultimately show ?thesis using True Cons.IH [of "add_event bs e"] by auto
  next
    case False
    then have "entry_or_new (add_event bs e) s = entry_or_new bs s" "map_of (add_event bs e) s = map_of bs s"
      by (auto simp: entry_or_new_def add_event_lookup)
    then show ?thesis using False Cons.IH [of "add_event bs e"] by auto
  qed
qed

lemma foldl_record_event:
  "foldl (\<lambda>b e. record_event e b) b es =
     b\<lparr>events := events b @ es,
       lats := lats b @ map latitude (filter (\<lambda>e. latitude e \<noteq> 0) es),
       lons := lons b @ map longitude (filter (\<lambda>e. longitude e \<noteq> 0) es)\<rparr>"
  by (induction es arbitrary: b) (simp_all add: record_event_def)

lemma fold_min_Min: "fold min xs (x :: real) = Min (set (x # xs))"
  by (rule Min.set_eq_fold [symmetric])

lemma fold_max_Max: "fold max xs (x :: real) = Max (set (x # xs))"
  by (rule Max.set_eq_fold [symmetric])

lemma train_success:
  assumes "train env self evs = (Inr (Metrics n k t), self')"
  shows "state_baselines self' = build_baselines (state_baselines self) evs"
  using assms
  by (auto simp: train_def Let_def save_model_def split: if_splits sum.splits option.splits)

lemma calculate_statistics_accumulated:
  "calculate_statistics
     (b\<lparr>events := events b @ es, lats := lats b @ ls, lons := lons b @ gs\<rparr>) =
   b\<lparr>events := events b @ es, lats := lats b @ ls, lons := lons b @ gs,
     avg_count := Some (length (events b) + length es),
     lat_range := (if lats b @ ls = [] then lat_range b
                   else Some (Min (set (lats b @ ls)), Max (set (lats b @ ls)))),
     lon_range := (if lons b @ gs = [] then lon_range b
                   else Some (Min (set (lons b @ gs)), Max (set (lons b @ gs))))\<rparr>"
proof -
  have r: "(case xs of [] \<Rightarrow> r | x # ys \<Rightarrow> Some (fold min ys x, fold max ys x)) =
      (if xs = [] then r else Some (Min (set xs), Max (set xs)))" for xs :: "real list" and r
    by (cases xs) (simp_all only: fold_min_Min fold_max_Max list.case if_False if_True
        list.distinct refl)
  show ?thesis by (simp add: calculate_statistics_def r)
qed

subsection \<open>Two training calls on the concrete inputs\<close>

lemma features_self:
  "\<exists>fs. extract_features env_late ev_ia [ev_ia] = Inr fs"
  "\<exists>fs. extract_features env_late ev_ia_moved [ev_ia_moved] = Inr fs"
  by (simp_all add: extract_features_def inputs_defs Let_def)

lemma env_late_fields:
  "sklearn_available env_late" "scaler_fit env_late sc X = sc" "model_fit env_late m X = m"
  by (simp_all add: env_late_def)

lemma build_once: "build_baselines [] [ev_ia] = baselines_once"
  by (simp add: build_baselines_def add_event_def new_baseline_def record_event_def
      calculate_statistics_def baselines_once_def) (simp add: ev_ia_def)

lemma build_twice: "build_baselines baselines_once [ev_ia_moved] = baselines_twice"
  by (simp add: build_baselines_def add_event_def new_baseline_def record_event_def
      calculate_statistics_def baselines_once_def baselines_twice_def)
     (simp add: ev_ia_def ev_ia_moved_def)

lemma build_moved_alone: "build_baselines [] [ev_ia_moved] = baselines_moved_alone"
  by (simp add: build_baselines_def add_event_def new_baseline_def record_event_def
      calculate_statistics_def baselines_moved_alone_def) (simp add: ev_ia_def ev_ia_moved_def)

lemma train_once:
  "train env_late det_fitted [ev_ia] = (Inr (Metrics 1 1 ''IsolationForest''), det_once)"
proof -
  obtain fs where f: "extract_features env_late ev_ia [ev_ia] = Inr fs"
    using features_self(1) by blast
  show ?thesis
    by (simp add: train_def f save_model_def build_once Let_def env_late_fields det_fitted_def det_fresh_def unfitted_model_def
        det_untrained_def det_once_def baselines_once_def)
qed

lemma train_twice:
  "train env_late det_once [ev_ia_moved] = (Inr (Metrics 1 1 ''IsolationForest''), det_twice)"
proof -
  obtain fs where f: "extract_features env_late ev_ia_moved [ev_ia_moved] = Inr fs"
    using features_self(2) by blast
  have l: "length baselines_twice = 1" by (simp add: baselines_twice_def)
  show ?thesis
    by (simp add: train_def f save_model_def build_twice Let_def env_late_fields det_fitted_def det_fresh_def unfitted_model_def
        det_untrained_def det_once_def det_twice_def l)
qed

lemma baselines_differ: "baselines_twice \<noteq> baselines_moved_alone"
  by (simp add: baselines_twice_def baselines_moved_alone_def)

subsection \<open>Evaluations with the fitted and the unfitted model\<close>


lemma detect_fresh_raises:
  "detect env_late det_fresh ev [] = Inl AttributeError"
  by (simp add: detect_def ml_detection_def model_usable_fresh extract_features_def Let_def)

lemma detect_zero_context_raises:
  "detect env self ev [ev_zero] = Inl ValueError"
  by (simp add: detect_def extract_features_def ev_zero_def)

section \<open>Fusion of the three methods\<close>

text \<open>
  Claim C1, as the code has it. Whenever \<open>detect\<close> returns a verdict, the entry
  \<open>scores\<close> holds the three method scores; the combined score is their maximum rounded
  to three decimals (so it differs from the maximum by at most 0.0005, and equals it when
  the learned score is 0); \<open>is_anomaly\<close> holds iff at least one of the three methods
  signalled; and the type is that of the first method that signalled, in the order
  statistical, pattern, learned (\<open>none\<close> when none signalled), whichever method has the
  maximum score.
\<close>

theorem detect_fusion:
  assumes "detect env self ev ctx = Inr v"
    and "extract_features env ev ctx = Inr fs"
    and "statistical_detection env ev ctx = (sa, ss, st)"
    and "ml_detection env self fs = Inr (ma, ms)"
    and "pattern_detection self ev ctx = (pa, ps, pt)"
  shows "scores v = \<lparr>statistical = ss, ml = ms, pattern = ps\<rparr> \<and>
         score v = py_round (max ss (max ms ps)) 3 \<and>
         \<bar>score v - max ss (max ms ps)\<bar> \<le> 1 / 2000 \<and>
         (ms = 0 \<longrightarrow> score v = max ss ps) \<and>
         is_anomaly v = (sa \<or> ma \<or> pa) \<and>
         atype v = (if sa then st else if pa then pt
                    else if ma then ''ml_detected'' else ''none'')"
proof -
  note v = detect_verdict [OF assms]
  have "ms = 0 \<Longrightarrow> py_round (max ss (max ms ps)) 3 = max ss ps"
  proof -
    assume z: "ms = 0"
    have "0 \<le> ps" using pattern_cases [OF assms(5)] by auto
    then have "max ss (max 0 ps) = max ss ps" by simp
    then show ?thesis using py_round3_fixed [OF max_fixed [OF assms(3) assms(5)]] z by simp
  qed
  then show ?thesis using py_round3_near [of "max ss (max ms ps)"] by (simp add: v)
qed

text \<open>The theorem at a stale event whose identifier is reused with other data.\<close>

theorem detect_fusion_witness:
  "statistical_detection env_late ev_ia [ev_ia_moved] = (True, 8 / 10, ''stale_event'') \<and>
   pattern_detection det_untrained ev_ia [ev_ia_moved] =
     (True, 85 / 100, ''duplicate_id_mismatch'') \<and>
   (case detect env_late det_untrained ev_ia [ev_ia_moved] of
      Inl err \<Rightarrow> False
    | Inr v \<Rightarrow> scores v = \<lparr>statistical = 8 / 10, ml = 0, pattern = 85 / 100\<rparr> \<and>
              score v = 85 / 100 \<and> is_anomaly v \<and> atype v = ''stale_event'')"
proof -
  obtain fs where f: "extract_features env_late ev_ia [ev_ia_moved] = Inr fs"
    using features_ia_moved by blast
  obtain v where d: "detect env_late det_untrained ev_ia [ev_ia_moved] = Inr v"
    using detect_stale_duplicate by blast
  have s: "statistical_detection env_late ev_ia [ev_ia_moved] = (True, 8 / 10, ''stale_event'')"
    by (simp add: statistical_ia_late)
  note p = pattern_ia_moved
  note m = ml_untrained [of env_late fs]
  from detect_fusion [OF d f s m p] d s p show ?thesis by simp
qed

text \<open>
  Claim C1 as the specification states it fails on the type: in the verdict below the
  maximum score 0.85 comes from the pattern method (\<open>duplicate_id_mismatch\<close>), and the
  type is the statistical method's \<open>stale_event\<close>, whose score is 0.8.
\<close>

theorem detect_type_not_from_maximum:
  "detect env_late det_untrained ev_ia [ev_ia_moved] =
     Inr \<lparr>is_anomaly = True, score = 85 / 100, atype = ''stale_event'',
          explanation = ''Event is over 1 week old - may be incorrectly included in feed'',
          fallback = Some \<lparr>fb_source = ''filtered_out'', fb_latitude = None,
                           fb_longitude = None,
                           fb_action = Some ''remove_from_active_events'',
                           fb_confidence = 9 / 10\<rparr>,
          scores = \<lparr>statistical = 8 / 10, ml = 0, pattern = 85 / 100\<rparr>,
          confidence = 85 / 100\<rparr> \<and>
   statistical_detection env_late ev_ia [ev_ia_moved] = (True, 8 / 10, ''stale_event'') \<and>
   pattern_detection det_untrained ev_ia [ev_ia_moved] =
     (True, 85 / 100, ''duplicate_id_mismatch'') \<and>
   spec_fused_type (8 / 10, ''stale_event'') 0 (85 / 100, ''duplicate_id_mismatch'') =
     ''duplicate_id_mismatch'' \<and>
   ''duplicate_id_mismatch'' \<noteq> ''stale_event''"
  by (simp add: detect_stale_duplicate statistical_ia_late pattern_ia_moved
      spec_fused_type_def)

section \<open>Totality of feature extraction and of detection\<close>

text \<open>
  Claim C3 at a failing input: the context window holds one event, at latitude 0 (so it
  is not empty and no event of it has a truthy latitude). Feature extraction raises
  \<^verbatim>\<open>ValueError\<close> (the minimum of an empty sequence) instead of returning a vector with
  the sentinel 999, and so does \<open>detect\<close>.
\<close>

theorem detect_raises_without_valid_context:
  "extract_features env_late ev_ia [ev_zero] = Inl ValueError \<and>
   detect env_late det_untrained ev_ia [ev_zero] = Inl ValueError"
  by (simp add: detect_def extract_features_def ev_zero_def)

section \<open>The learned detector's contribution\<close>

text \<open>
  Claim C4 at a failing input: the detector that \<^verbatim>\<open>__init__\<close> builds when there is no
  model file, before any training. No trained model exists, and the claim says that the
  learned method then contributes 0.0 and that \<open>detect\<close> does not raise. The code tests
  the truth value of the unfitted forest outside the \<^verbatim>\<open>try\<close>, the test raises
  \<^verbatim>\<open>AttributeError\<close>, and so does \<open>detect\<close>, for an event and a context on which
  feature extraction succeeds.
\<close>

theorem detect_raises_on_unfitted_model:
  "model det_fresh = Some unfitted_model \<and> truth unfitted_model = None \<and>
   model_usable env_late det_fresh = Inl AttributeError \<and>
   (\<exists>fs. extract_features env_late ev_ia [] = Inr fs) \<and>
   detect env_late det_fresh ev_ia [] = Inl AttributeError"
  by (simp add: model_usable_fresh detect_fresh_raises features_ia_empty)
     (simp add: det_fresh_def unfitted_model_def)

section \<open>The coordinate rules of the statistical detector\<close>

text \<open>
  Claim C5, as the code has it. For every event whose coordinates are not both zero and
  whose latitude is outside \<open>[24, 50]\<close> or whose longitude is outside \<open>[-125, -65]\<close>,
  \<open>detect\<close> returns a verdict with type \<open>invalid_coordinates\<close> and score 1 (and with
  \<open>is_anomaly\<close> true and statistical score 1), on every context window on which feature
  extraction succeeds (an empty one, or one with an event of non-zero latitude) and for
  every detector on which the test of the model does not raise.
\<close>

theorem invalid_coordinates_verdict:
  assumes "\<not> (latitude ev = 0 \<and> longitude ev = 0)"
    and "latitude ev < 24 \<or> 50 < latitude ev \<or> longitude ev < - 125 \<or> - 65 < longitude ev"
    and "ctx = [] \<or> (\<exists>e\<in>set ctx. latitude e \<noteq> 0)"
    and "model_usable env self = Inr usable"
  shows "\<exists>v. detect env self ev ctx = Inr v \<and> is_anomaly v \<and>
           atype v = ''invalid_coordinates'' \<and> statistical (scores v) = 1 \<and> score v = 1"
proof -
  have "statistical_detection env ev ctx = (True, 1, ''invalid_coordinates'')"
    using assms(1,2) by (auto simp: statistical_detection_def Let_def)
  then show ?thesis by (rule detect_with_statistical_one [OF assms(3,4)])
qed

text \<open>The theorem at an event at latitude 10, with an empty context and the fitted
  model.\<close>

theorem invalid_coordinates_verdict_witness:
  "\<not> (latitude ev_south = 0 \<and> longitude ev_south = 0) \<and> latitude ev_south < 24 \<and>
   model_usable env_late det_fitted = Inr True \<and>
   (case detect env_late det_fitted ev_south [] of
      Inl err \<Rightarrow> False
    | Inr v \<Rightarrow> is_anomaly v \<and> atype v = ''invalid_coordinates'' \<and> score v = 1)"
proof -
  have a: "\<not> (latitude ev_south = 0 \<and> longitude ev_south = 0)"
    by (simp add: inputs_defs)
  have b: "latitude ev_south < 24 \<or> 50 < latitude ev_south \<or>
           longitude ev_south < - 125 \<or> - 65 < longitude ev_south"
    by (simp add: inputs_defs)
  have c: "([] :: event list) = [] \<or> (\<exists>e\<in>set []. latitude e \<noteq> 0)" by simp
  from invalid_coordinates_verdict [OF a b c model_usable_fitted]
  have "case detect env_late det_fitted ev_south [] of
      Inl err \<Rightarrow> False
    | Inr v \<Rightarrow> is_anomaly v \<and> atype v = ''invalid_coordinates'' \<and> score v = 1"
    by fastforce
  then show ?thesis using a model_usable_fitted by (simp add: inputs_defs)
qed

text \<open>
  Claim C5 as the specification states it fails at the coordinates (0, 0): the latitude
  0 is outside \<open>[24, 50]\<close>, and the type is \<open>zero_coordinates\<close>, since the rule for
  (0, 0) is tested first.
\<close>

theorem zero_is_not_invalid_coordinates:
  "latitude ev_zero < 24 \<and>
   detect env_late det_untrained ev_zero [] =
     Inr \<lparr>is_anomaly = True, score = 1, atype = ''zero_coordinates'',
          explanation = ''Event coordinates (0, 0) indicate sensor failure for IA API'',
          fallback = Some \<lparr>fb_source = ''none_available'', fb_latitude = None,
                           fb_longitude = None,
                           fb_action = Some ''manual_review_required'',
                           fb_confidence = 0\<rparr>,
          scores = \<lparr>statistical = 1, ml = 0, pattern = 0\<rparr>,
          confidence = 1\<rparr> \<and>
   ''zero_coordinates'' \<noteq> ''invalid_coordinates''"
  by (simp add: detect_zero_untrained) (simp add: ev_zero_def)

text \<open>
  Claim C6 at two failing inputs, both at the event at (0, 0). With a context window
  that holds one event at latitude 0, feature extraction raises \<^verbatim>\<open>ValueError\<close> (the
  defect of claim C3); with the detector that \<^verbatim>\<open>__init__\<close> builds when there is no model
  file, the test of the unfitted model raises \<^verbatim>\<open>AttributeError\<close> (the defect of claim
  C4). In both, \<open>detect\<close> raises instead of returning the verdict \<open>zero_coordinates\<close>.
\<close>

theorem zero_coordinates_detect_raises:
  "latitude ev_zero = 0 \<and> longitude ev_zero = 0 \<and>
   detect env_late det_untrained ev_zero [ev_zero] = Inl ValueError \<and>
   detect env_late det_fresh ev_zero [] = Inl AttributeError"
  by (simp add: detect_zero_context_raises detect_fresh_raises) (simp add: ev_zero_def)

text \<open>Where \<open>detect\<close> returns, the verdict for an event at (0, 0) is the one the
  specification states: on every context window on which feature extraction succeeds and
  for every detector on which the test of the model does not raise.\<close>

lemma zero_coordinates_verdict:
  assumes "latitude ev = 0" and "longitude ev = 0"
    and "ctx = [] \<or> (\<exists>e\<in>set ctx. latitude e \<noteq> 0)"
    and "model_usable env self = Inr usable"
  shows "\<exists>v. detect env self ev ctx = Inr v \<and> is_anomaly v \<and>
           atype v = ''zero_coordinates'' \<and> statistical (scores v) = 1 \<and> score v = 1"
proof -
  have "statistical_detection env ev ctx = (True, 1, ''zero_coordinates'')"
    using assms(1,2) by (simp add: statistical_detection_def)
  then show ?thesis by (rule detect_with_statistical_one [OF assms(3,4)])
qed

section \<open>The fallback of a verdict\<close>

text \<open>
  Claim C10. In every verdict that \<open>detect\<close> returns, the fallback is present iff
  \<open>is_anomaly\<close> is true; and a fallback that is present carries a source tag from
  \<open>cached_coordinates\<close>, \<open>skip_update\<close>, \<open>filtered_out\<close>, \<open>interpolated\<close>,
  \<open>none_available\<close> and a confidence in \<open>[0, 1]\<close>.
\<close>

theorem fallback_iff_anomaly:
  assumes "detect env self ev ctx = Inr v"
  shows "(fallback v \<noteq> None \<longleftrightarrow> is_anomaly v) \<and>
         (\<forall>f. fallback v = Some f \<longrightarrow>
            fb_source f \<in> {''cached_coordinates'', ''skip_update'', ''filtered_out'',
                            ''interpolated'', ''none_available''} \<and>
            0 \<le> fb_confidence f \<and> fb_confidence f \<le> 1)"
proof -
  obtain fs where f: "extract_features env ev ctx = Inr fs"
    using assms detect_raises [of env self ev ctx] by (cases "extract_features env ev ctx") auto
  obtain sa ss st where s: "statistical_detection env ev ctx = (sa, ss, st)"
    by (cases "statistical_detection env ev ctx")
  obtain ma ms where m: "ml_detection env self fs = Inr (ma, ms)"
    using detect_ml_entry [OF f assms] by blast
  obtain pa ps pt where p: "pattern_detection self ev ctx = (pa, ps, pt)"
    by (cases "pattern_detection self ev ctx")
  note eq = detect_verdict [OF assms f s m p]
  show ?thesis
    using fallback_wellformed [of ev ctx "if sa then st else if pa then pt
                                  else if ma then ''ml_detected'' else ''none''"]
    by (auto simp: eq)
qed

text \<open>The theorem at the event at (0, 0), with an empty context.\<close>

theorem fallback_iff_anomaly_witness:
  "(case detect env_late det_untrained ev_zero [] of
      Inl err \<Rightarrow> False
    | Inr v \<Rightarrow> is_anomaly v \<and>
        map_option fb_source (fallback v) = Some ''none_available'' \<and>
        map_option fb_confidence (fallback v) = Some 0)"
proof -
  obtain v where v: "detect env_late det_untrained ev_zero [] = Inr v"
    using detect_zero_untrained by blast
  from fallback_iff_anomaly [OF v] v show ?thesis by (auto simp: detect_zero_untrained)
qed

section \<open>The fallback for zero coordinates\<close>

text \<open>
  Claim C7, as the code has it. For the anomaly type \<open>zero_coordinates\<close>: when the
  context window holds an event of the same state whose latitude and longitude are both
  non-zero, the fallback is \<open>cached_coordinates\<close> with exactly the coordinates of the
  most recent such event (the last one in the window) and confidence 0.6. When it holds
  none, the fallback is the default branch: if some context event of the same state lies
  within 50 km, \<open>interpolated\<close> with confidence 0.5, the latitude being the mean of the
  non-zero latitudes of those events and the longitude the mean of their non-zero
  longitudes; otherwise \<open>none_available\<close> with the action \<open>manual_review_required\<close> and
  confidence 0.
\<close>

theorem zero_coordinates_fallback:
  "(recent = older @ e # newer \<and>
    state e = state ev \<and> latitude e \<noteq> 0 \<and> longitude e \<noteq> 0 \<and>
    (\<forall>x\<in>set newer. \<not> (state x = state ev \<and> latitude x \<noteq> 0 \<and> longitude x \<noteq> 0)) \<longrightarrow>
    generate_fallback ev recent ''zero_coordinates'' =
      \<lparr>fb_source = ''cached_coordinates'',
       fb_latitude = Some (Finite (latitude e)),
       fb_longitude = Some (Finite (longitude e)),
       fb_action = None, fb_confidence = 6 / 10\<rparr>) \<and>
   ((\<forall>x\<in>set recent. \<not> (state x = state ev \<and> latitude x \<noteq> 0 \<and> longitude x \<noteq> 0)) \<longrightarrow>
    generate_fallback ev recent ''zero_coordinates'' =
      (let nearby = filter (\<lambda>x. state x = state ev \<and> distance x ev < 50) recent
       in if nearby \<noteq> []
          then \<lparr>fb_source = ''interpolated'',
                fb_latitude = Some (np_mean (map latitude (filter (\<lambda>x. latitude x \<noteq> 0) nearby))),
                fb_longitude = Some (np_mean (map longitude (filter (\<lambda>x. longitude x \<noteq> 0) nearby))),
                fb_action = None, fb_confidence = 5 / 10\<rparr>
          else \<lparr>fb_source = ''none_available'', fb_latitude = None, fb_longitude = None,
                fb_action = Some ''manual_review_required'', fb_confidence = 0\<rparr>))"
  using fallback_zero_cached [of recent older e newer ev]
    fallback_zero_default [of recent ev] interpolate_fallback_means [of ev recent]
  by presburger

text \<open>The theorem at the event at (0, 0): with an Iowa event at (42, -93.5) before it
  in the window, and with two events 0.1 degree north and 0.1 degree east of (0, 0).\<close>

theorem zero_coordinates_fallback_witness:
  "generate_fallback ev_zero [ev_ia, ev_zero] ''zero_coordinates'' =
     \<lparr>fb_source = ''cached_coordinates'', fb_latitude = Some (Finite 42),
      fb_longitude = Some (Finite (- 935 / 10)), fb_action = None, fb_confidence = 6 / 10\<rparr> \<and>
   generate_fallback ev_zero [ev_north, ev_east] ''zero_coordinates'' =
     \<lparr>fb_source = ''interpolated'', fb_latitude = Some (Finite (1 / 10)),
      fb_longitude = Some (Finite (1 / 10)), fb_action = None, fb_confidence = 5 / 10\<rparr>"
proof -
  have a: "[ev_ia, ev_zero] = [] @ ev_ia # [ev_zero] \<and>
    state ev_ia = state ev_zero \<and> latitude ev_ia \<noteq> 0 \<and> longitude ev_ia \<noteq> 0 \<and>
    (\<forall>x\<in>set [ev_zero].
       \<not> (state x = state ev_zero \<and> latitude x \<noteq> 0 \<and> longitude x \<noteq> 0))"
    by (simp add: inputs_defs)
  have b: "\<forall>x\<in>set [ev_north, ev_east].
       \<not> (state x = state ev_zero \<and> latitude x \<noteq> 0 \<and> longitude x \<noteq> 0)"
    by (simp add: inputs_defs)
  have 1: "generate_fallback ev_zero [ev_ia, ev_zero] ''zero_coordinates'' =
     \<lparr>fb_source = ''cached_coordinates'', fb_latitude = Some (Finite 42),
      fb_longitude = Some (Finite (- 935 / 10)), fb_action = None, fb_confidence = 6 / 10\<rparr>"
    using zero_coordinates_fallback [of "[ev_ia, ev_zero]" "[]" ev_ia "[ev_zero]" ev_zero] a
    by (simp add: inputs_defs)
  have 2: "generate_fallback ev_zero [ev_north, ev_east] ''zero_coordinates'' =
     \<lparr>fb_source = ''interpolated'', fb_latitude = Some (Finite (1 / 10)),
      fb_longitude = Some (Finite (1 / 10)), fb_action = None, fb_confidence = 5 / 10\<rparr>"
    using zero_coordinates_fallback [of "[ev_north, ev_east]" "[]" ev_north "[ev_east]" ev_zero] b
    by (simp add: north_near east_near north_east_fields np_mean_def)
  from 1 2 show ?thesis by simp
qed

text \<open>
  Claim C7 as the specification states it fails on the interpolation: for the two events
  at (0.1, 0) and (0, 0.1), both within 50 km of (0, 0), the coordinate-wise mean is
  (0.05, 0.05), and the code suggests (0.1, 0.1), since each mean skips the zero
  coordinates.
\<close>

theorem interpolation_skips_zero_coordinates:
  "generate_fallback ev_zero [ev_north, ev_east] ''zero_coordinates'' =
     \<lparr>fb_source = ''interpolated'', fb_latitude = Some (Finite (1 / 10)),
      fb_longitude = Some (Finite (1 / 10)), fb_action = None, fb_confidence = 5 / 10\<rparr> \<and>
   spec_interpolation ev_zero [ev_north, ev_east] = (Finite (1 / 20), Finite (1 / 20)) \<and>
   (1 / 10 :: real) \<noteq> 1 / 20"
  by (simp add: fallback_north_east spec_north_east)

section \<open>Training on an empty list\<close>

text \<open>
  Claim C8. \<open>train\<close> on the empty list returns the error result
  \<open>Training requires sklearn and training data\<close> and leaves the detector (model, scaler,
  every state baseline, and the stored file) as it was.
\<close>

theorem train_empty_unchanged:
  "train env self [] =
     (Inr (TrainingError ''Training requires sklearn and training data''), self)"
  by (simp add: train_def)

text \<open>The theorem at a detector with a model.\<close>

theorem train_empty_unchanged_witness:
  "fst (train env_late det_fitted []) =
     Inr (TrainingError ''Training requires sklearn and training data'') \<and>
   snd (train env_late det_fitted []) = det_fitted"
  using train_empty_unchanged [of env_late det_fitted] by simp

section \<open>Determinism of detection\<close>




section \<open>The state baselines after training\<close>

text \<open>
  Claim C2, as the code has it. After a successful \<open>train\<close> call, the baseline of every
  state that has an event in the corpus holds the events, the non-zero latitudes and the
  non-zero longitudes that the state's entry held before the call, followed by those of
  the corpus; its count is the number of all these events and its latitude and longitude
  ranges are the minimum and maximum over all these latitudes and longitudes. So the
  baseline comes from the corpus alone only for a state that had no entry before the
  call. The entry of a state without an event in the corpus is kept, its statistics
  calculated again from its own lists.
\<close>

theorem train_accumulates_baselines:
  assumes "train env self evs = (Inr (Metrics n k t), self')"
  shows "(s \<noteq> [] \<and> (\<exists>e\<in>set evs. state e = s) \<longrightarrow>
          (\<exists>b. map_of (state_baselines self') s = Some b \<and>
             events b = events (entry_or_new (state_baselines self) s) @
                          filter (\<lambda>e. state e = s) evs \<and>
             lats b = lats (entry_or_new (state_baselines self) s) @
                        map latitude (filter (\<lambda>e. state e = s \<and> latitude e \<noteq> 0) evs) \<and>
             lons b = lons (entry_or_new (state_baselines self) s) @
                        map longitude (filter (\<lambda>e. state e = s \<and> longitude e \<noteq> 0) evs) \<and>
             avg_count b = Some (length (events (entry_or_new (state_baselines self) s)) +
                                   length (filter (\<lambda>e. state e = s) evs)) \<and>
             lat_range b = (if lats b = []
                            then lat_range (entry_or_new (state_baselines self) s)
                            else Some (Min (set (lats b)), Max (set (lats b)))) \<and>
             lon_range b = (if lons b = []
                            then lon_range (entry_or_new (state_baselines self) s)
                            else Some (Min (set (lons b)), Max (set (lons b)))))) \<and>
         (\<not> (s \<noteq> [] \<and> (\<exists>e\<in>set evs. state e = s)) \<longrightarrow>
            map_of (state_baselines self') s =
              map_option calculate_statistics (map_of (state_baselines self) s))"
proof -
  have ex: "(\<exists>e\<in>set evs. state e = s) \<longleftrightarrow> filter (\<lambda>e. state e = s) evs \<noteq> []"
    by (auto simp: filter_empty_conv)
  have flt: "filter (\<lambda>e. latitude e \<noteq> 0) (filter (\<lambda>e. state e = s) evs) =
             filter (\<lambda>e. state e = s \<and> latitude e \<noteq> 0) evs"
            "filter (\<lambda>e. longitude e \<noteq> 0) (filter (\<lambda>e. state e = s) evs) =
             filter (\<lambda>e. state e = s \<and> longitude e \<noteq> 0) evs"
    by (simp_all add: conj_commute)
  have look: "map_of (state_baselines self') s =
      map_option calculate_statistics (map_of (foldl add_event (state_baselines self) evs) s)"
    by (simp add: train_success [OF assms] build_baselines_def map_of_map_values)
  show ?thesis
    unfolding look foldl_add_event_lookup foldl_record_event ex flt
    by (simp add: calculate_statistics_accumulated)
qed

text \<open>The theorem at the second of two training calls, for the state of the corpus and
  for a state that has no entry and no event.\<close>

theorem train_accumulates_baselines_witness:
  "train env_late det_once [ev_ia_moved] =
     (Inr (Metrics 1 1 ''IsolationForest''), det_twice) \<and>
   map_option avg_count (map_of (state_baselines det_twice) ''IA'') = Some (Some 2) \<and>
   map_option events (map_of (state_baselines det_twice) ''IA'') =
     Some (events (entry_or_new (state_baselines det_once) ''IA'') @ [ev_ia_moved]) \<and>
   map_of (state_baselines det_twice) ''TX'' = None"
proof -
  note t = train_accumulates_baselines [OF train_twice]
  have ia: "''IA'' \<noteq> [] \<and> (\<exists>e\<in>set [ev_ia_moved]. state e = ''IA'')"
    by (simp add: inputs_defs)
  have tx: "\<not> (''TX'' \<noteq> [] \<and> (\<exists>e\<in>set [ev_ia_moved]. state e = ''TX''))"
    by (simp add: inputs_defs)
  have old: "length (events (entry_or_new (state_baselines det_once) ''IA'')) = 1"
    by (simp add: entry_or_new_def inputs_defs)
  have f: "filter (\<lambda>e. state e = ''IA'') [ev_ia_moved] = [ev_ia_moved]"
    by (simp add: inputs_defs)
  have none: "map_of (state_baselines det_once) ''TX'' = None"
    by (simp add: inputs_defs)
  from t [of "''IA''"] ia old f
  have 1: "map_option avg_count (map_of (state_baselines det_twice) ''IA'') = Some (Some 2) \<and>
     map_option events (map_of (state_baselines det_twice) ''IA'') =
     Some (events (entry_or_new (state_baselines det_once) ''IA'') @ [ev_ia_moved])"
    by auto
  from t [of "''TX''"] tx none
  have 2: "map_of (state_baselines det_twice) ''TX'' = None" by simp
  from 1 2 train_twice show ?thesis by simp
qed

text \<open>
  Claim C2 as the specification states it fails after two successful training calls: the
  first on one Iowa event at latitude 42, the second on one Iowa event at latitude 41.
  The baseline of Iowa then counts 2 events and ranges over the latitudes 41 to 42; the
  baselines computed from the second corpus alone count 1 event at latitude 41.
\<close>

theorem train_merges_epochs:
  "train env_late det_fitted [ev_ia] = (Inr (Metrics 1 1 ''IsolationForest''), det_once) \<and>
   train env_late det_once [ev_ia_moved] =
     (Inr (Metrics 1 1 ''IsolationForest''), det_twice) \<and>
   state_baselines det_twice = baselines_twice \<and>
   build_baselines [] [ev_ia_moved] = baselines_moved_alone \<and>
   baselines_twice \<noteq> baselines_moved_alone"
  by (simp add: train_once train_twice build_moved_alone baselines_differ)
     (simp add: det_twice_def)

end
